theory Spec2Isabelle
  imports Main
begin

section \<open>The parsed document\<close>

text \<open>
  \<^verbatim>\<open>scripts/validate-github-actions.py\<close> reads a workflow file with \<^verbatim>\<open>yaml.safe_load\<close> and
  inspects the Python objects it gets back. A scalar is \<^verbatim>\<open>None\<close>, a \<^verbatim>\<open>bool\<close>, an \<^verbatim>\<open>int\<close>,
  a \<^verbatim>\<open>float\<close>, a \<^verbatim>\<open>str\<close> or a date/datetime (an unquoted timestamp). The validator reads
  three things off a scalar: its truth value, its \<^verbatim>\<open>str()\<close> text (inside an f-string) and
  whether it equals the key \<^verbatim>\<open>True\<close> or a given string. A float and a timestamp are therefore
  kept as the text that \<^verbatim>\<open>str()\<close> gives them (\<^verbatim>\<open>0.0\<close>, \<^verbatim>\<open>1.0\<close>, \<^verbatim>\<open>2024-01-31\<close>).
  Mapping keys are scalars (an unhashable key makes \<^verbatim>\<open>safe_load\<close> raise a \<^verbatim>\<open>YAMLError\<close>),
  and a \<^verbatim>\<open>dict\<close> keeps its items in insertion order, so a mapping is an association list.
  Values built only by explicit tags (\<^verbatim>\<open>!!binary\<close>, \<^verbatim>\<open>!!set\<close>, \<^verbatim>\<open>!!omap\<close>) are left out.
\<close>

datatype scalar =
    SNone
  | SBool bool
  | SInt int
  | SFloat string
  | SStr string
  | STime string

datatype yval =
    Scalar scalar
  | Seq "yval list"
  | Map "(scalar \<times> yval) list"

type_synonym dict = "(scalar \<times> yval) list"

text \<open>Python's truth value of an object, as \<^verbatim>\<open>not x\<close> and \<^verbatim>\<open>x or y\<close> test it.\<close>

fun truthy :: "yval \<Rightarrow> bool" where
  "truthy (Scalar SNone) = False"
| "truthy (Scalar (SBool b)) = b"
| "truthy (Scalar (SInt i)) = (i \<noteq> 0)"
| "truthy (Scalar (SFloat t)) = (t \<noteq> ''0.0'' \<and> t \<noteq> ''-0.0'')"
| "truthy (Scalar (SStr s)) = (s \<noteq> [])"
| "truthy (Scalar (STime t)) = True"
| "truthy (Seq xs) = (xs \<noteq> [])"
| "truthy (Map kvs) = (kvs \<noteq> [])"

text \<open>\<^verbatim>\<open>isinstance(x, dict)\<close> and \<^verbatim>\<open>isinstance(x, list)\<close>.\<close>

fun is_dict :: "yval \<Rightarrow> bool" where
  "is_dict (Map kvs) = True"
| "is_dict (Seq xs) = False"
| "is_dict (Scalar s) = False"

fun is_list :: "yval \<Rightarrow> bool" where
  "is_list (Seq xs) = True"
| "is_list (Map kvs) = False"
| "is_list (Scalar s) = False"

text \<open>
  A dictionary finds a key by Python equality. The validator probes with string literals,
  which equal string keys only, and with \<^verbatim>\<open>True\<close>, which equals the keys \<^verbatim>\<open>True\<close>, \<^verbatim>\<open>1\<close>
  and \<^verbatim>\<open>1.0\<close>.
\<close>

definition str_key :: "string \<Rightarrow> scalar \<Rightarrow> bool" where
  "str_key s k = (k = SStr s)"

definition true_key :: "scalar \<Rightarrow> bool" where
  "true_key k = (k = SBool True \<or> k = SInt 1 \<or> k = SFloat ''1.0'')"

fun lookup :: "(scalar \<Rightarrow> bool) \<Rightarrow> dict \<Rightarrow> yval option" where
  "lookup p [] = None"
| "lookup p ((k, v) # kvs) = (if p k then Some v else lookup p kvs)"

text \<open>\<^verbatim>\<open>s in d\<close>, \<^verbatim>\<open>d.get(s)\<close> and \<^verbatim>\<open>d.get(True)\<close>; \<^verbatim>\<open>get\<close> gives \<^verbatim>\<open>None\<close> for an absent key.\<close>

definition has_key :: "dict \<Rightarrow> string \<Rightarrow> bool" where
  "has_key d s = (lookup (str_key s) d \<noteq> None)"

definition get :: "dict \<Rightarrow> string \<Rightarrow> yval" where
  "get d s = (case lookup (str_key s) d of None \<Rightarrow> Scalar SNone | Some v \<Rightarrow> v)"

definition get_True :: "dict \<Rightarrow> yval" where
  "get_True d = (case lookup true_key d of None \<Rightarrow> Scalar SNone | Some v \<Rightarrow> v)"

text \<open>The text an f-string puts in for a key: \<^verbatim>\<open>str(key)\<close>.\<close>

fun str_nat :: "nat \<Rightarrow> string" where
  "str_nat n = (if n < 10 then [''0123456789'' ! n]
                else str_nat (n div 10) @ [''0123456789'' ! (n mod 10)])"

definition str_int :: "int \<Rightarrow> string" where
  "str_int i = (if i < 0 then ''-'' @ str_nat (nat (- i)) else str_nat (nat i))"

fun py_str :: "scalar \<Rightarrow> string" where
  "py_str SNone = ''None''"
| "py_str (SBool b) = (if b then ''True'' else ''False'')"
| "py_str (SInt i) = str_int i"
| "py_str (SFloat t) = t"
| "py_str (SStr s) = s"
| "py_str (STime t) = t"

section \<open>The rules of \<^verbatim>\<open>validate_workflow\<close>\<close>

text \<open>
  The function collects its findings in the local list \<^verbatim>\<open>errors\<close>, created empty and only
  ever appended to. Each block of the body is a function from the list before the block to
  the list after it.
\<close>

text \<open>Lines 20-21: the \<^verbatim>\<open>name\<close> key.\<close>

definition check_name :: "dict \<Rightarrow> string list \<Rightarrow> string list" where
  "check_name workflow errors =
     (if \<not> has_key workflow ''name''
      then errors @ [''Missing required field: name'']
      else errors)"

text \<open>Line 24: \<^verbatim>\<open>on_field = workflow.get("on") or workflow.get(True)\<close>.\<close>

definition on_field :: "dict \<Rightarrow> yval" where
  "on_field workflow =
     (if truthy (get workflow ''on'') then get workflow ''on'' else get_True workflow)"

text \<open>Lines 25-28: both branches test \<^verbatim>\<open>not on_field\<close>.\<close>

definition check_on :: "yval \<Rightarrow> string list \<Rightarrow> string list" where
  "check_on on errors =
     (if \<not> truthy on then errors @ [''Missing required field: on (triggers)'']
      else if \<not> truthy on then errors @ [''Empty on field - no triggers defined'']
      else errors)"

text \<open>Lines 30-33: the \<^verbatim>\<open>jobs\<close> key and the truth value of what it holds.\<close>

definition check_jobs :: "dict \<Rightarrow> string list \<Rightarrow> string list" where
  "check_jobs workflow errors =
     (case lookup (str_key ''jobs'') workflow of
        None \<Rightarrow> errors @ [''Missing required field: jobs'']
      | Some jobs \<Rightarrow>
          if \<not> truthy jobs then errors @ [''Empty jobs field - no jobs defined'']
          else errors)"

text \<open>Lines 39-43: the loop over \<^verbatim>\<open>on_field.items()\<close>, one iteration and the whole loop.\<close>

definition check_trigger :: "scalar \<Rightarrow> yval \<Rightarrow> string list \<Rightarrow> string list" where
  "check_trigger trigger config errors =
     (if is_dict config \<and> \<not> truthy config
      then errors @ [''Empty '' @ py_str trigger @ '' trigger configuration'']
      else if is_list config \<and> \<not> truthy config
      then errors @ [''Empty '' @ py_str trigger @ '' trigger list'']
      else errors)"

fun trigger_loop :: "dict \<Rightarrow> string list \<Rightarrow> string list" where
  "trigger_loop [] errors = errors"
| "trigger_loop ((trigger, config) # items) errors =
     trigger_loop items (check_trigger trigger config errors)"

text \<open>Lines 36-43.\<close>

definition check_triggers :: "yval \<Rightarrow> string list \<Rightarrow> string list" where
  "check_triggers on errors =
     (if truthy on
      then (case on of Map items \<Rightarrow> trigger_loop items errors | _ \<Rightarrow> errors)
      else errors)"

text \<open>Lines 48-58: one iteration of the loop over the jobs.\<close>

definition check_job :: "scalar \<Rightarrow> yval \<Rightarrow> string list \<Rightarrow> string list" where
  "check_job job_name job_config errors =
     (case job_config of
        Map cfg \<Rightarrow>
          (let errors1 =
                 (if \<not> has_key cfg ''runs-on''
                  then errors @ [''Job '' @ py_str job_name @ '' missing runs-on field'']
                  else errors)
           in case lookup (str_key ''steps'') cfg of
                None \<Rightarrow> errors1 @ [''Job '' @ py_str job_name @ '' missing steps field'']
              | Some steps \<Rightarrow>
                  if \<not> truthy steps
                  then errors1 @ [''Job '' @ py_str job_name @ '' has empty steps'']
                  else errors1)
      | _ \<Rightarrow> errors @ [''Job '' @ py_str job_name @ '' is not a dictionary''])"

fun jobs_loop :: "dict \<Rightarrow> string list \<Rightarrow> string list" where
  "jobs_loop [] errors = errors"
| "jobs_loop ((job_name, job_config) # items) errors =
     jobs_loop items (check_job job_name job_config errors)"

text \<open>
  The exceptions the body can raise: \<^verbatim>\<open>"name" not in workflow\<close> raises \<^verbatim>\<open>TypeError\<close> on an
  object that is no container, \<^verbatim>\<open>.get\<close> and \<^verbatim>\<open>.items()\<close> raise \<^verbatim>\<open>AttributeError\<close> on an
  object that is no \<^verbatim>\<open>dict\<close>, and \<^verbatim>\<open>open\<close> raises \<^verbatim>\<open>OSError\<close>.
\<close>

datatype pyexc = TypeError | AttributeError | OSError

text \<open>Lines 46-58: \<^verbatim>\<open>workflow["jobs"].items()\<close> needs a \<^verbatim>\<open>dict\<close>.\<close>

definition check_jobs_structure :: "dict \<Rightarrow> string list \<Rightarrow> pyexc + string list" where
  "check_jobs_structure workflow errors =
     (case lookup (str_key ''jobs'') workflow of
        None \<Rightarrow> Inr errors
      | Some (Map items) \<Rightarrow> Inr (jobs_loop items errors)
      | Some _ \<Rightarrow> Inl AttributeError)"

text \<open>
  Lines 17-58 on the loaded object. On a list or a string the test \<^verbatim>\<open>"name" not in workflow\<close>
  succeeds and \<^verbatim>\<open>workflow.get\<close> raises; on any other scalar the test itself raises.
\<close>

fun rules :: "yval \<Rightarrow> pyexc + string list" where
  "rules (Map workflow) =
     (let errors = check_name workflow [];
          on = on_field workflow;
          errors = check_on on errors;
          errors = check_jobs workflow errors;
          errors = check_triggers on errors
      in check_jobs_structure workflow errors)"
| "rules (Seq xs) = Inl AttributeError"
| "rules (Scalar (SStr s)) = Inl AttributeError"
| "rules (Scalar SNone) = Inl TypeError"
| "rules (Scalar (SBool b)) = Inl TypeError"
| "rules (Scalar (SInt i)) = Inl TypeError"
| "rules (Scalar (SFloat t)) = Inl TypeError"
| "rules (Scalar (STime t)) = Inl TypeError"

section \<open>\<^verbatim>\<open>validate_workflow\<close> and \<^verbatim>\<open>main\<close>\<close>

text \<open>
  What lines 14-15 yield for a path: the loaded object, a \<^verbatim>\<open>yaml.YAMLError\<close> with its
  message, or a failure to open the file.
\<close>

datatype load_result =
    Loaded yval
  | YAMLError string
  | OpenFailed

text \<open>
  What the function prints: the line \<^verbatim>\<open>- Valid\<close>, the header and one line per entry of
  \<^verbatim>\<open>errors\<close>, the line \<^verbatim>\<open>- YAML Error: e\<close>, or the line \<^verbatim>\<open>- Error: e\<close>.
\<close>

datatype printed =
    Valid
  | Invalid "string list"
  | YAML_Error string
  | Error pyexc

fun validate_workflow :: "load_result \<Rightarrow> printed \<times> bool" where
  "validate_workflow (Loaded workflow) =
     (case rules workflow of
        Inr errors \<Rightarrow> if errors \<noteq> [] then (Invalid errors, False) else (Valid, True)
      | Inl e \<Rightarrow> (Error e, False))"
| "validate_workflow (YAMLError e) = (YAML_Error e, False)"
| "validate_workflow OpenFailed = (Error OSError, False)"

text \<open>
  Lines 82-85 of \<^verbatim>\<open>main\<close>: the loop over the files, with the output so far and the flag
  \<^verbatim>\<open>all_valid\<close> as its state.
\<close>

fun main_loop :: "load_result list \<Rightarrow> printed list \<times> bool \<Rightarrow> printed list \<times> bool" where
  "main_loop [] st = st"
| "main_loop (f # fs) (out, all_valid) =
     (let (p, ok) = validate_workflow f
      in main_loop fs (out @ [p], if \<not> ok then False else all_valid))"

section \<open>Documents used below\<close>

definition good_job :: yval where
  "good_job = Map [(SStr ''runs-on'', Scalar (SStr ''ubuntu'')),
                   (SStr ''steps'', Seq [Scalar (SStr ''checkout'')])]"

text \<open>
  Scenario A of the specification,
  \<^verbatim>\<open>{name: "CI", on: {push: {}}, jobs: {build: {runs-on: ubuntu, steps: [checkout]}}}\<close>;
  the loader reads the plain key \<^verbatim>\<open>on\<close> as \<^verbatim>\<open>True\<close>.
\<close>

definition scenario_A :: yval where
  "scenario_A = Map [(SStr ''name'', Scalar (SStr ''CI'')),
                     (SBool True, Map [(SStr ''push'', Map [])]),
                     (SStr ''jobs'', Map [(SStr ''build'', good_job)])]"

text \<open>\<^verbatim>\<open>{name: "CI", on: {}, jobs: {build: {runs-on: ubuntu, steps: [checkout]}}}\<close>\<close>

definition doc_empty_on :: yval where
  "doc_empty_on = Map [(SStr ''name'', Scalar (SStr ''CI'')),
                       (SBool True, Map []),
                       (SStr ''jobs'', Map [(SStr ''build'', good_job)])]"

text \<open>\<^verbatim>\<open>{name: "CI", on: {push: {}}, jobs: {}}\<close>\<close>

definition doc_empty_jobs :: yval where
  "doc_empty_jobs = Map [(SStr ''name'', Scalar (SStr ''CI'')),
                         (SBool True, Map [(SStr ''push'', Map [])]),
                         (SStr ''jobs'', Map [])]"


text \<open>\<^verbatim>\<open>{"on": {}, jobs: {}}\<close> with the key quoted, and \<^verbatim>\<open>{on: [push], jobs: {}}\<close>.\<close>

definition doc_literal_on :: dict where
  "doc_literal_on = [(SStr ''on'', Map []), (SStr ''jobs'', Map [])]"



text \<open>\<^verbatim>\<open>{on: {push: {}, schedule: []}, jobs: {a: , b: {}}}\<close>\<close>

definition doc_two_jobs :: dict where
  "doc_two_jobs = [(SBool True, Map [(SStr ''push'', Map []), (SStr ''schedule'', Seq [])]),
                   (SStr ''jobs'', Map [(SStr ''a'', Scalar SNone), (SStr ''b'', Map [])])]"

text \<open>\<^verbatim>\<open>{name: "CI", on: {}, jobs: }\<close>: an empty trigger mapping and a null \<^verbatim>\<open>jobs\<close>.\<close>

definition doc_null_jobs :: dict where
  "doc_null_jobs = [(SStr ''name'', Scalar (SStr ''CI'')),
                    (SBool True, Map []),
                    (SStr ''jobs'', Scalar SNone)]"


section \<open>The report as a concatenation\<close>

text \<open>
  The items the two loops run over: those of \<^verbatim>\<open>on_field\<close> when it is a non-empty \<^verbatim>\<open>dict\<close>,
  and those of \<^verbatim>\<open>workflow["jobs"]\<close>.
\<close>

definition trigger_items :: "yval \<Rightarrow> dict" where
  "trigger_items on =
     (if truthy on then (case on of Map items \<Rightarrow> items | _ \<Rightarrow> []) else [])"

definition job_items :: "dict \<Rightarrow> dict" where
  "job_items workflow =
     (case lookup (str_key ''jobs'') workflow of Some (Map items) \<Rightarrow> items | _ \<Rightarrow> [])"

section \<open>Properties\<close>

lemma lookup_str_literal [simp]:
  "lookup (str_key s) ((SStr t, v) # kvs) = (if t = s then Some v else lookup (str_key s) kvs)"
  "lookup (str_key s) ((SBool b, v) # kvs) = lookup (str_key s) kvs"
  by (auto simp: str_key_def)

subsection \<open>Every block only appends\<close>

lemma check_name_append: "check_name w errors = errors @ check_name w []"
  by (simp add: check_name_def)

lemma check_on_append: "check_on f errors = errors @ check_on f []"
  by (simp add: check_on_def)

lemma check_jobs_append: "check_jobs w errors = errors @ check_jobs w []"
  by (simp add: check_jobs_def split: option.splits)

lemma check_trigger_append: "check_trigger t c errors = errors @ check_trigger t c []"
  by (simp add: check_trigger_def)

lemma trigger_loop_concat:
  "trigger_loop items errors = errors @ concat (map (\<lambda>(t, c). check_trigger t c []) items)"
proof (induction items arbitrary: errors)
  case Nil
  show ?case by simp
next
  case (Cons item items)
  obtain t c where item: "item = (t, c)" by (cases item)
  have "trigger_loop (item # items) errors = trigger_loop items (check_trigger t c errors)"
    by (simp add: item)
  also have "\<dots> = check_trigger t c errors @ concat (map (\<lambda>(t, c). check_trigger t c []) items)"
    by (rule Cons.IH)
  also have "check_trigger t c errors = errors @ check_trigger t c []"
    by (rule check_trigger_append)
  finally show ?case by (simp add: item)
qed

lemma check_triggers_append: "check_triggers f errors = errors @ check_triggers f []"
  by (cases f) (simp_all add: check_triggers_def trigger_loop_concat)

lemma check_job_append: "check_job n c errors = errors @ check_job n c []"
  by (cases c) (simp_all add: check_job_def Let_def split: option.splits)

lemma jobs_loop_concat:
  "jobs_loop items errors = errors @ concat (map (\<lambda>(n, c). check_job n c []) items)"
proof (induction items arbitrary: errors)
  case Nil
  show ?case by simp
next
  case (Cons item items)
  obtain n c where item: "item = (n, c)" by (cases item)
  have "jobs_loop (item # items) errors = jobs_loop items (check_job n c errors)"
    by (simp add: item)
  also have "\<dots> = check_job n c errors @ concat (map (\<lambda>(n, c). check_job n c []) items)"
    by (rule Cons.IH)
  also have "check_job n c errors = errors @ check_job n c []"
    by (rule check_job_append)
  finally show ?case by (simp add: item)
qed

lemma check_triggers_items:
  "check_triggers f [] = concat (map (\<lambda>(t, c). check_trigger t c []) (trigger_items f))"
  by (cases f) (simp_all add: check_triggers_def trigger_items_def trigger_loop_concat)

lemma rules_Map_concat:
  assumes "rules (Map w) = Inr errs"
  shows "errs = check_name w [] @ check_on (on_field w) [] @ check_jobs w []
               @ check_triggers (on_field w) []
               @ concat (map (\<lambda>(n, c). check_job n c []) (job_items w))"
proof -
  define pre where "pre = check_triggers (on_field w)
      (check_jobs w (check_on (on_field w) (check_name w [])))"
  have pre: "pre = check_name w [] @ check_on (on_field w) [] @ check_jobs w []
               @ check_triggers (on_field w) []"
    unfolding pre_def
    by (subst check_triggers_append, subst check_jobs_append, subst check_on_append) simp
  have "check_jobs_structure w pre = Inr errs"
    using assms by (simp add: pre_def Let_def)
  then have "errs = pre @ concat (map (\<lambda>(n, c). check_job n c []) (job_items w))"
    by (auto simp: check_jobs_structure_def job_items_def jobs_loop_concat
             split: option.splits yval.splits)
  then show ?thesis by (simp add: pre)
qed

subsection \<open>The claims\<close>


text \<open>
  C3 (as the code orders it). When the rules run to the end, the report is, in this order:
  the name finding, the trigger finding, the jobs-presence or jobs-emptiness finding, the
  findings for empty trigger configurations in the order of the triggers, and then the
  findings of each job in the order of the jobs, each job's findings together. So the
  jobs-presence and jobs-emptiness findings come before every trigger-configuration finding.
\<close>

theorem report_order:
  assumes "rules (Map w) = Inr errs"
  shows "errs = check_name w [] @ check_on (on_field w) [] @ check_jobs w []
          @ concat (map (\<lambda>(t, c). check_trigger t c []) (trigger_items (on_field w)))
          @ concat (map (\<lambda>(n, c). check_job n c []) (job_items w))"
  using rules_Map_concat [OF assms] by (simp only: check_triggers_items)

text \<open>
  Against C3 as stated: with an empty \<^verbatim>\<open>jobs\<close> mapping and an empty \<^verbatim>\<open>push\<close>
  configuration, the jobs-emptiness finding comes first and the trigger-configuration finding
  second.
\<close>

theorem report_order_counterexample:
  "rules doc_empty_jobs =
     Inr [''Empty jobs field - no jobs defined'', ''Empty push trigger configuration'']"
  by code_simp

theorem report_order_witness:
  "rules (Map doc_two_jobs) =
     Inr [''Missing required field: name'',
          ''Empty push trigger configuration'', ''Empty schedule trigger list'',
          ''Job a is not a dictionary'',
          ''Job b missing runs-on field'', ''Job b missing steps field''] \<and>
   [''Missing required field: name'',
    ''Empty push trigger configuration'', ''Empty schedule trigger list'',
    ''Job a is not a dictionary'',
    ''Job b missing runs-on field'', ''Job b missing steps field''] =
   check_name doc_two_jobs [] @ check_on (on_field doc_two_jobs) [] @ check_jobs doc_two_jobs []
     @ concat (map (\<lambda>(t, c). check_trigger t c []) (trigger_items (on_field doc_two_jobs)))
     @ concat (map (\<lambda>(n, c). check_job n c []) (job_items doc_two_jobs))"
proof -
  have r: "rules (Map doc_two_jobs) =
     Inr [''Missing required field: name'',
          ''Empty push trigger configuration'', ''Empty schedule trigger list'',
          ''Job a is not a dictionary'',
          ''Job b missing runs-on field'', ''Job b missing steps field'']"
    by code_simp
  show ?thesis
    by (rule conjI [OF r report_order [OF r]])
qed

text \<open>
  C1 (as the code judges). The findings carry no severity: every finding goes to the one
  list \<^verbatim>\<open>errors\<close>. When the rules run to the end, the verdict is True exactly when that list
  is empty, and the list is printed whenever it is not empty.
\<close>

theorem invalid_iff_any_finding:
  "rules t = Inr errs \<Longrightarrow>
   snd (validate_workflow (Loaded t)) = (errs = []) \<and>
   fst (validate_workflow (Loaded t)) = (if errs = [] then Valid else Invalid errs)"
  by simp

text \<open>
  Against C1 as stated: the report of Scenario A is the single finding for the empty
  \<^verbatim>\<open>push\<close> configuration, and the document is judged invalid.
\<close>

theorem scenario_A_counterexample:
  "validate_workflow (Loaded scenario_A) = (Invalid [''Empty push trigger configuration''], False)"
  by code_simp

theorem invalid_iff_any_finding_witness:
  "rules scenario_A = Inr [''Empty push trigger configuration''] \<and>
   snd (validate_workflow (Loaded scenario_A)) = ([''Empty push trigger configuration''] = []) \<and>
   fst (validate_workflow (Loaded scenario_A)) =
     (if [''Empty push trigger configuration''] = [] then Valid
      else Invalid [''Empty push trigger configuration''])"
proof -
  have r: "rules scenario_A = Inr [''Empty push trigger configuration'']"
    by code_simp
  show ?thesis
    by (rule conjI [OF r invalid_iff_any_finding [OF r]])
qed

text \<open>
  C2 (the code at an empty trigger mapping). For a document that is complete but for
  \<^verbatim>\<open>on: {}\<close>, the report is the single finding of the presence branch of lines 25-26; the
  emptiness finding of lines 27-28 is not in it.
\<close>

theorem empty_on_reported_missing:
  "rules doc_empty_on = Inr [''Missing required field: on (triggers)'']"
  by code_simp















lemma main_loop_map:
  "main_loop fs (out, all_valid) =
     (out @ map (\<lambda>f. fst (validate_workflow f)) fs,
      all_valid \<and> list_all (\<lambda>f. snd (validate_workflow f)) fs)"
proof (induction fs arbitrary: out all_valid)
  case Nil
  show ?case by simp
next
  case (Cons f fs)
  obtain p ok where v: "validate_workflow f = (p, ok)" by (cases "validate_workflow f")
  have "main_loop (f # fs) (out, all_valid) =
          main_loop fs (out @ [p], if \<not> ok then False else all_valid)"
    by (simp add: v)
  also have "\<dots> = ((out @ [p]) @ map (\<lambda>f. fst (validate_workflow f)) fs,
                   (if \<not> ok then False else all_valid) \<and>
                   list_all (\<lambda>f. snd (validate_workflow f)) fs)"
    by (rule Cons.IH)
  finally show ?case by (auto simp: v)
qed

text \<open>
  C9. Validating the same loaded document twice in one run prints the same report twice,
  whatever was printed before and whatever the flag \<^verbatim>\<open>all_valid\<close> was: no state of the first
  validation reaches the second.
\<close>

theorem validation_deterministic:
  "main_loop [f, f] (out, all_valid) =
     (out @ [fst (validate_workflow f), fst (validate_workflow f)],
      all_valid \<and> snd (validate_workflow f))"
  by (simp only: main_loop_map) simp

theorem validation_deterministic_witness:
  "main_loop [Loaded (Map doc_two_jobs), Loaded (Map doc_two_jobs)] ([], True) =
     ([] @ [fst (validate_workflow (Loaded (Map doc_two_jobs))),
            fst (validate_workflow (Loaded (Map doc_two_jobs)))],
      True \<and> snd (validate_workflow (Loaded (Map doc_two_jobs))))"
  by (rule validation_deterministic)

lemma empty_on_not_trigger_message:
  "''Empty '' @ s @ '' trigger configuration'' \<noteq> ''Empty on field - no triggers defined''"
  "''Empty '' @ s @ '' trigger list'' \<noteq> ''Empty on field - no triggers defined''"
proof -
  show "''Empty '' @ s @ '' trigger configuration'' \<noteq> ''Empty on field - no triggers defined''"
  proof
    assume "''Empty '' @ s @ '' trigger configuration'' = ''Empty on field - no triggers defined''"
    then have "last (''Empty '' @ s @ '' trigger configuration'')
                 = last ''Empty on field - no triggers defined''"
      by (rule arg_cong)
    then show False by simp
  qed
  show "''Empty '' @ s @ '' trigger list'' \<noteq> ''Empty on field - no triggers defined''"
  proof
    assume "''Empty '' @ s @ '' trigger list'' = ''Empty on field - no triggers defined''"
    then have "last (''Empty '' @ s @ '' trigger list'')
                 = last ''Empty on field - no triggers defined''"
      by (rule arg_cong)
    then show False by simp
  qed
qed

lemma empty_on_not_in_check_name:
  "''Empty on field - no triggers defined'' \<notin> set (check_name w [])"
  by (simp add: check_name_def)

lemma empty_on_not_in_check_on:
  "''Empty on field - no triggers defined'' \<notin> set (check_on f [])"
  by (simp add: check_on_def)

lemma empty_on_not_in_check_jobs:
  "''Empty on field - no triggers defined'' \<notin> set (check_jobs w [])"
  by (simp add: check_jobs_def split: option.splits)

lemma empty_on_not_in_check_trigger:
  "''Empty on field - no triggers defined'' \<notin> set (check_trigger t c [])"
  using empty_on_not_trigger_message [of "py_str t"]
  by (auto simp: check_trigger_def)

lemma empty_on_not_in_check_triggers:
  "''Empty on field - no triggers defined'' \<notin> set (check_triggers f [])"
  by (auto simp: check_triggers_items empty_on_not_in_check_trigger)

lemma empty_on_not_in_check_job:
  "''Empty on field - no triggers defined'' \<notin> set (check_job n c [])"
  by (cases c) (simp_all add: check_job_def Let_def split: option.splits)

lemma empty_on_not_in_rules:
  assumes "rules t = Inr errs"
  shows "''Empty on field - no triggers defined'' \<notin> set errs"
proof -
  obtain w where t: "t = Map w"
    using assms by (cases t rule: rules.cases) simp_all
  note d = rules_Map_concat [OF assms [unfolded t]]
  show ?thesis
    by (subst d)
       (auto simp: empty_on_not_in_check_name empty_on_not_in_check_on
          empty_on_not_in_check_jobs empty_on_not_in_check_triggers
          empty_on_not_in_check_job)
qed

lemma missing_on_in_rules:
  assumes "rules (Map w) = Inr errs" and "\<not> truthy (on_field w)"
  shows "''Missing required field: on (triggers)'' \<in> set errs"
proof -
  note d = rules_Map_concat [OF assms(1)]
  from assms(2) have "check_on (on_field w) [] = [''Missing required field: on (triggers)'']"
    by (simp add: check_on_def)
  then show ?thesis by (subst d) simp
qed

text \<open>
  C10 (as the code behaves). Whatever the input, what is printed never contains the message
  of line 28: its branch has the condition of the branch before it. When the rules run to the
  end and \<^verbatim>\<open>on_field\<close> is false in Python's sense (absent, null or empty), the printed
  report contains the message of line 26.
\<close>

theorem empty_on_never_emitted:
  "(\<forall>errs. fst (validate_workflow l) = Invalid errs \<longrightarrow>
           ''Empty on field - no triggers defined'' \<notin> set errs) \<and>
   (\<forall>w errs. l = Loaded (Map w) \<longrightarrow> rules (Map w) = Inr errs \<longrightarrow> \<not> truthy (on_field w) \<longrightarrow>
           ''Missing required field: on (triggers)'' \<in> set errs \<and>
           validate_workflow l = (Invalid errs, False))"
proof -
  have never: "''Empty on field - no triggers defined'' \<notin> set errs"
    if p: "fst (validate_workflow l) = Invalid errs" for errs
  proof (cases l)
    case (Loaded t)
    show ?thesis
    proof (cases "rules t")
      case (Inl e)
      with Loaded p show ?thesis by simp
    next
      case (Inr errs')
      with Loaded p have "errs' = errs" by (simp split: if_splits)
      with Inr show ?thesis by (simp add: empty_on_not_in_rules)
    qed
  next
    case (YAMLError e)
    with p show ?thesis by simp
  next
    case OpenFailed
    with p show ?thesis by simp
  qed
  have reported: "''Missing required field: on (triggers)'' \<in> set errs \<and>
                  validate_workflow l = (Invalid errs, False)"
    if l: "l = Loaded (Map w)" and r: "rules (Map w) = Inr errs"
      and f: "\<not> truthy (on_field w)" for w errs
  proof -
    have m: "''Missing required field: on (triggers)'' \<in> set errs"
      using r f by (rule missing_on_in_rules)
    then have "errs \<noteq> []" by auto
    with m r show ?thesis by (simp add: l)
  qed
  from never reported show ?thesis by blast
qed

text \<open>
  Against C10 as stated: with an empty trigger mapping and a null \<^verbatim>\<open>jobs\<close>, line 26 appends
  its message, line 47 raises, and only the generic error is printed: the empty trigger field
  is not reported.
\<close>

theorem empty_on_unreported_counterexample:
  "lookup true_key doc_null_jobs = Some (Map []) \<and>
   \<not> truthy (on_field doc_null_jobs) \<and>
   validate_workflow (Loaded (Map doc_null_jobs)) = (Error AttributeError, False)"
  by code_simp

theorem empty_on_never_emitted_witness:
  "validate_workflow (Loaded (Map doc_literal_on)) =
     (Invalid [''Missing required field: name'', ''Missing required field: on (triggers)'',
               ''Empty jobs field - no jobs defined''], False) \<and>
   \<not> truthy (on_field doc_literal_on) \<and>
   ''Empty on field - no triggers defined'' \<notin>
     set [''Missing required field: name'', ''Missing required field: on (triggers)'',
          ''Empty jobs field - no jobs defined''] \<and>
   ''Missing required field: on (triggers)'' \<in>
     set [''Missing required field: name'', ''Missing required field: on (triggers)'',
          ''Empty jobs field - no jobs defined'']"
proof -
  have r: "rules (Map doc_literal_on) =
     Inr [''Missing required field: name'', ''Missing required field: on (triggers)'',
          ''Empty jobs field - no jobs defined'']"
    by code_simp
  have f: "\<not> truthy (on_field doc_literal_on)"
    by code_simp
  note inst = empty_on_never_emitted [of "Loaded (Map doc_literal_on)"]
  from inst r f
  have v: "''Missing required field: on (triggers)'' \<in>
     set [''Missing required field: name'', ''Missing required field: on (triggers)'',
          ''Empty jobs field - no jobs defined''] \<and>
    validate_workflow (Loaded (Map doc_literal_on)) =
     (Invalid [''Missing required field: name'', ''Missing required field: on (triggers)'',
               ''Empty jobs field - no jobs defined''], False)"
    by blast
  then have "fst (validate_workflow (Loaded (Map doc_literal_on))) =
     Invalid [''Missing required field: name'', ''Missing required field: on (triggers)'',
               ''Empty jobs field - no jobs defined'']"
    by (simp only: fst_conv)
  with inst have n: "''Empty on field - no triggers defined'' \<notin>
     set [''Missing required field: name'', ''Missing required field: on (triggers)'',
          ''Empty jobs field - no jobs defined'']"
    by blast
  from v f n show ?thesis by blast
qed

end
